theory Spec2Isabelle
  imports Complex_Main "HOL-Library.List_Lexorder" "HOL-Library.AList"
begin

section \<open>Strings and the interpreter's Unicode tables\<close>

text \<open>
  A Python \<open>str\<close> is a sequence of Unicode code points; it is modelled as a list of
  code points (\<open>ustr\<close>), so that \<open>len\<close>, slicing and a character class of a regular
  expression all count what Python counts.  String literals of the source are written as
  code point lists, with a transliteration beside them.

  The Unicode tables of the interpreter (normalisation, case mapping, character
  categories) are data of CPython, not of this repository.  The functions of the source
  take them as the parameter \<open>U\<close>; general theorems hold for every table, and concrete
  evaluations use \<open>py_tables\<close> below.
\<close>

type_synonym cp = int
type_synonym ustr = "int list"

record unicode_db =
  u_nfkc :: "ustr \<Rightarrow> ustr"             \<comment> \<open>\<open>unicodedata.normalize("NFKC", s)\<close>\<close>
  u_lower :: "ustr \<Rightarrow> ustr"            \<comment> \<open>\<open>str.lower\<close>\<close>
  u_space :: "cp \<Rightarrow> bool"              \<comment> \<open>\<open>str.isspace\<close>: \<open>\s\<close>, \<open>strip\<close>, \<open>split\<close>\<close>
  u_digit :: "cp \<Rightarrow> nat option"        \<comment> \<open>decimal digit value: \<open>\d\<close>, \<open>int\<close>\<close>
  u_alnum :: "cp \<Rightarrow> bool"              \<comment> \<open>\<open>str.isalnum\<close>: \<open>\w\<close> and \<open>\b\<close>\<close>
  u_ci_lit :: "cp \<Rightarrow> cp \<Rightarrow> bool"       \<comment> \<open>a literal under \<open>re.I\<close>: pattern character, subject\<close>
  u_ci_range :: "cp \<Rightarrow> cp \<Rightarrow> cp \<Rightarrow> bool" \<comment> \<open>a range \<open>[lo-hi]\<close> under \<open>re.I\<close>\<close>

definition is_space :: "unicode_db \<Rightarrow> cp \<Rightarrow> bool" where
  "is_space U c = u_space U c"

definition is_digit :: "unicode_db \<Rightarrow> cp \<Rightarrow> bool" where
  "is_digit U c = (u_digit U c \<noteq> None)"

definition is_word :: "unicode_db \<Rightarrow> cp \<Rightarrow> bool" where
  \<comment> \<open>\<open>\w\<close>: alphanumeric or underscore\<close>
  "is_word U c = (u_alnum U c \<or> c = 95)"

definition is_az :: "cp \<Rightarrow> bool" where
  \<comment> \<open>\<open>[a-z\<close>U+0430\<open>-\<close>U+044F\<open>]\<close> without flags\<close>
  "is_az c = ((97 \<le> c \<and> c \<le> 122) \<or> (1072 \<le> c \<and> c \<le> 1103))"

definition is_az_ci :: "unicode_db \<Rightarrow> cp \<Rightarrow> bool" where
  \<comment> \<open>the same class under \<open>re.I\<close>\<close>
  "is_az_ci U c = (u_ci_range U 97 122 c \<or> u_ci_range U 1072 1103 c)"

subsection \<open>String methods\<close>

definition replace_chr :: "cp \<Rightarrow> ustr \<Rightarrow> ustr \<Rightarrow> ustr" where
  \<comment> \<open>\<open>s.replace(old, new)\<close> for a one-character \<open>old\<close>\<close>
  "replace_chr old new s = concat (map (\<lambda>c. if c = old then new else [c]) s)"

definition py_strip :: "unicode_db \<Rightarrow> ustr \<Rightarrow> ustr" where
  "py_strip U s = rev (dropWhile (is_space U) (rev (dropWhile (is_space U) s)))"

fun split_on :: "cp \<Rightarrow> ustr \<Rightarrow> ustr list" where
  \<comment> \<open>\<open>s.split(sep)\<close> for a one-character separator: empty pieces are kept\<close>
  "split_on sep [] = [[]]"
| "split_on sep (c # cs) =
     (if c = sep then [] # split_on sep cs
      else (case split_on sep cs of [] \<Rightarrow> [[c]] | p # ps \<Rightarrow> (c # p) # ps))"

fun split_ws_acc :: "unicode_db \<Rightarrow> ustr \<Rightarrow> ustr \<Rightarrow> ustr list" where
  "split_ws_acc U cur [] = (if cur = [] then [] else [rev cur])"
| "split_ws_acc U cur (c # cs) =
     (if is_space U c then (if cur = [] then [] else [rev cur]) @ split_ws_acc U [] cs
      else split_ws_acc U (c # cur) cs)"

definition py_split :: "unicode_db \<Rightarrow> ustr \<Rightarrow> ustr list" where
  \<comment> \<open>\<open>s.split()\<close>: pieces between runs of whitespace, none empty\<close>
  "py_split U s = split_ws_acc U [] s"

fun py_join :: "ustr \<Rightarrow> ustr list \<Rightarrow> ustr" where
  "py_join sep [] = []"
| "py_join sep [x] = x"
| "py_join sep (x # y # ys) = x @ sep @ py_join sep (y # ys)"

datatype error = TypeError | KeyError | ValueError

fun int_acc :: "unicode_db \<Rightarrow> int \<Rightarrow> ustr \<Rightarrow> error + int" where
  "int_acc U acc [] = Inr acc"
| "int_acc U acc (c # cs) =
     (case u_digit U c of None \<Rightarrow> Inl ValueError
      | Some d \<Rightarrow> int_acc U (10 * acc + int d) cs)"

definition py_int :: "unicode_db \<Rightarrow> ustr \<Rightarrow> error + int" where
  \<comment> \<open>\<open>int(s)\<close> on the text of a regex group: ValueError unless all are decimal digits\<close>
  "py_int U s = (if s = [] then Inl ValueError else int_acc U 0 s)"

section \<open>Regular expressions with Python's backtracking order\<close>

text \<open>
  The patterns of the source are ordinary \<open>re\<close> patterns.  \<open>rx\<close> is their abstract
  syntax, \<open>rx_match\<close> the matcher: it returns every way the pattern can match at a
  position, in the order in which Python's backtracking tries them, so the head of the
  list is the match Python reports.  Repetition is greedy and only over character
  classes, which is all the source uses.
\<close>

datatype rx =
    Eps
  | Chr "cp \<Rightarrow> bool"
  | Seq rx rx
  | Alt rx rx
  | Opt rx
  | Rep nat "nat option" "cp \<Rightarrow> bool"
  | Grp nat rx
  | WordB "cp \<Rightarrow> bool"
  | NotBehind "cp \<Rightarrow> bool"
  | NotAhead "cp \<Rightarrow> bool"

record mstate =
  m_pos :: nat
  m_prev :: "cp option"
  m_rest :: ustr
  m_caps :: "(nat \<times> ustr) list"

definition advance :: "mstate \<Rightarrow> nat \<Rightarrow> mstate" where
  "advance s j =
     (if j = 0 then s
      else s\<lparr>m_pos := m_pos s + j, m_prev := Some (m_rest s ! (j - 1)),
             m_rest := drop j (m_rest s)\<rparr>)"

definition holds_opt :: "(cp \<Rightarrow> bool) \<Rightarrow> cp option \<Rightarrow> bool" where
  "holds_opt P x = (case x of None \<Rightarrow> False | Some c \<Rightarrow> P c)"

definition next_chr :: "mstate \<Rightarrow> cp option" where
  "next_chr s = (case m_rest s of [] \<Rightarrow> None | c # _ \<Rightarrow> Some c)"

fun rx_match :: "rx \<Rightarrow> mstate \<Rightarrow> mstate list" where
  "rx_match Eps s = [s]"
| "rx_match (Chr P) s =
     (case m_rest s of [] \<Rightarrow> []
      | c # cs \<Rightarrow> if P c then [advance s 1] else [])"
| "rx_match (Seq a b) s = concat (map (rx_match b) (rx_match a s))"
| "rx_match (Alt a b) s = rx_match a s @ rx_match b s"
| "rx_match (Opt a) s = rx_match a s @ [s]"
| "rx_match (Rep lo hi P) s =
     (let k = length (takeWhile P (m_rest s));
          kmax = (case hi of None \<Rightarrow> k | Some h \<Rightarrow> min h k)
      in map (advance s) (rev [lo..<Suc kmax]))"
| "rx_match (Grp n a) s =
     map (\<lambda>e. e\<lparr>m_caps := (n, take (m_pos e - m_pos s) (m_rest s)) # m_caps e\<rparr>)
       (rx_match a s)"
| "rx_match (WordB W) s =
     (if holds_opt W (m_prev s) \<noteq> holds_opt W (next_chr s) then [s] else [])"
| "rx_match (NotBehind P) s = (if holds_opt P (m_prev s) then [] else [s])"
| "rx_match (NotAhead P) s = (if holds_opt P (next_chr s) then [] else [s])"

definition lit :: "ustr \<Rightarrow> rx" where
  "lit w = foldr (\<lambda>c r. Seq (Chr (\<lambda>x. x = c)) r) w Eps"

definition lit_ci :: "unicode_db \<Rightarrow> ustr \<Rightarrow> rx" where
  "lit_ci U w = foldr (\<lambda>c r. Seq (Chr (u_ci_lit U c)) r) w Eps"

definition seqs :: "rx list \<Rightarrow> rx" where
  "seqs rs = foldr Seq rs Eps"

text \<open>A match object: start and end of the span, and the groups that took part.\<close>

record rmatch =
  r_start :: nat
  r_end :: nat
  r_groups :: "(nat \<times> ustr) list"

definition group :: "rmatch \<Rightarrow> nat \<Rightarrow> ustr option" where
  "group m n = map_of (r_groups m) n"

definition step_chr :: "mstate \<Rightarrow> cp \<Rightarrow> ustr \<Rightarrow> mstate" where
  "step_chr s c cs = s\<lparr>m_pos := Suc (m_pos s), m_prev := Some c, m_rest := cs\<rparr>"

function finditer_st :: "rx \<Rightarrow> mstate \<Rightarrow> rmatch list" where
  "finditer_st r s =
     (case rx_match r s of
        [] \<Rightarrow> (case m_rest s of [] \<Rightarrow> [] | c # cs \<Rightarrow> finditer_st r (step_chr s c cs))
      | e # _ \<Rightarrow>
          \<lparr>r_start = m_pos s, r_end = m_pos e, r_groups = m_caps e\<rparr> #
          (if length (m_rest e) < length (m_rest s)
           then finditer_st r (e\<lparr>m_caps := []\<rparr>)
           else (case m_rest s of [] \<Rightarrow> [] | c # cs \<Rightarrow> finditer_st r (step_chr s c cs))))"
  by pat_completeness auto
termination
  by (relation "measure (\<lambda>(r, s). length (m_rest s))") (auto simp: step_chr_def)

definition start_state :: "ustr \<Rightarrow> mstate" where
  "start_state s = \<lparr>m_pos = 0, m_prev = None, m_rest = s, m_caps = []\<rparr>"

definition finditer :: "rx \<Rightarrow> ustr \<Rightarrow> rmatch list" where
  \<comment> \<open>\<open>re.finditer\<close>: the non-overlapping matches, left to right\<close>
  "finditer r s = finditer_st r (start_state s)"

fun sub_build :: "ustr \<Rightarrow> nat \<Rightarrow> rmatch list \<Rightarrow> (rmatch \<Rightarrow> ustr) \<Rightarrow> ustr" where
  "sub_build s i [] f = drop i s"
| "sub_build s i (m # ms) f =
     take (r_start m - i) (drop i s) @ f m @ sub_build s (r_end m) ms f"

definition re_sub :: "rx \<Rightarrow> (rmatch \<Rightarrow> ustr) \<Rightarrow> ustr \<Rightarrow> ustr" where
  \<comment> \<open>\<open>re.sub(pattern, repl, s)\<close>\<close>
  "re_sub r f s = sub_build s 0 (finditer r s) f"

definition re_search :: "rx \<Rightarrow> ustr \<Rightarrow> bool" where
  \<comment> \<open>\<open>bool(re.search(pattern, s))\<close>\<close>
  "re_search r s = (finditer r s \<noteq> [])"

definition re_fullmatch :: "rx \<Rightarrow> ustr \<Rightarrow> bool" where
  \<comment> \<open>\<open>bool(re.fullmatch(pattern, s))\<close>\<close>
  "re_fullmatch r s = list_ex (\<lambda>e. m_rest e = []) (rx_match r (start_state s))"

section \<open>Text normalisation (robot.py)\<close>

definition rx_punct :: rx where
  \<comment> \<open>\<open>[\.;:\(\)\[\]\{\}]\<close>\<close>
  "rx_punct = Chr (\<lambda>c. c \<in> set [46, 59, 58, 40, 41, 91, 93, 123, 125])"

definition rx_comma :: "unicode_db \<Rightarrow> rx" where
  \<comment> \<open>\<open>\s*,\s*\<close>\<close>
  "rx_comma U = seqs [Rep 0 None (is_space U), Chr (\<lambda>c. c = 44), Rep 0 None (is_space U)]"

definition rx_spaces :: "unicode_db \<Rightarrow> rx" where
  \<comment> \<open>\<open>\s+\<close>\<close>
  "rx_spaces U = Rep 1 None (is_space U)"

definition norm_text :: "unicode_db \<Rightarrow> ustr \<Rightarrow> ustr" where
  "norm_text U s0 =
     (let s = u_nfkc U s0;
          s = u_lower U s;
          s = replace_chr 1105 [1077] s;       \<comment> \<open>io to ie\<close>
          s = replace_chr 8470 [] s;           \<comment> \<open>the numero sign\<close>
          s = replace_chr 92 [32] s;           \<comment> \<open>backslash to space\<close>
          s = re_sub rx_punct (\<lambda>_. [32]) s;
          s = re_sub (rx_comma U) (\<lambda>_. [44, 32]) s;
          s = py_strip U (re_sub (rx_spaces U) (\<lambda>_. [32]) s)
      in s)"

definition word_rx :: "unicode_db \<Rightarrow> ustr \<Rightarrow> rx" where
  \<comment> \<open>\<open>\bw\b\<close>\<close>
  "word_rx U w = seqs [WordB (is_word U), lit w, WordB (is_word U)]"

definition word_dot_rx :: "unicode_db \<Rightarrow> ustr \<Rightarrow> rx" where
  \<comment> \<open>\<open>\bw\.\b\<close>\<close>
  "word_dot_rx U w = seqs [WordB (is_word U), lit w, Chr (\<lambda>c. c = 46), WordB (is_word U)]"

definition STREET_EQUIV :: "unicode_db \<Rightarrow> (rx \<times> ustr) list" where
  "STREET_EQUIV U =
    [(word_rx U [1087, 1088, 1086, 1089, 1087, 1077, 1082, 1090], [1087, 1088]),  \<comment> \<open>prospekt, pr\<close>
     (word_rx U [1087, 1088, 1086, 1089, 1087], [1087, 1088]),                    \<comment> \<open>prosp\<close>
     (word_rx U [1087, 1088, 45, 1082, 1090], [1087, 1088]),                      \<comment> \<open>pr-kt\<close>
     (word_rx U [1087, 1088, 45, 1090], [1087, 1088]),                            \<comment> \<open>pr-t\<close>
     (word_dot_rx U [1087, 1088], [1087, 1088]),                                  \<comment> \<open>pr.\<close>
     (word_rx U [1087, 1088], [1087, 1088]),                                      \<comment> \<open>pr\<close>
     (word_rx U [1091, 1083, 1080, 1094, 1072], [1091, 1083]),                    \<comment> \<open>ulitsa, ul\<close>
     (word_dot_rx U [1091, 1083], [1091, 1083]),
     (word_rx U [1091, 1083], [1091, 1083]),
     (word_rx U [1085, 1072, 1073, 1077, 1088, 1077, 1078, 1085, 1072, 1103], [1085, 1072, 1073]),
                                                                                  \<comment> \<open>naberezhnaya, nab\<close>
     (word_dot_rx U [1085, 1072, 1073], [1085, 1072, 1073]),
     (word_rx U [1085, 1072, 1073], [1085, 1072, 1073]),
     (word_rx U [1087, 1077, 1088, 1077, 1091, 1083, 1086, 1082], [1087, 1077, 1088]), \<comment> \<open>pereulok, per\<close>
     (word_dot_rx U [1087, 1077, 1088], [1087, 1077, 1088]),
     (word_rx U [1087, 1077, 1088], [1087, 1077, 1088]),
     (word_rx U [1096, 1086, 1089, 1089, 1077], [1096]),                          \<comment> \<open>shosse, sh\<close>
     (word_dot_rx U [1096], [1096]),
     (word_rx U [1096], [1096]),
     (word_rx U [1082, 1086, 1088, 1087, 1091, 1089], [1082]),                    \<comment> \<open>korpus, k\<close>
     (word_dot_rx U [1082, 1086, 1088, 1087], [1082]),                            \<comment> \<open>korp.\<close>
     (word_rx U [1089, 1090, 1088, 1086, 1077, 1085, 1080, 1077], [1089, 1090, 1088]), \<comment> \<open>stroenie, str\<close>
     (word_dot_rx U [1089, 1090, 1088], [1089, 1090, 1088])]"                     \<comment> \<open>str.\<close>

definition normalize_street_part :: "unicode_db \<Rightarrow> ustr \<Rightarrow> ustr" where
  "normalize_street_part U addr_norm =
     (let s = fold (\<lambda>(pat, rep) s. re_sub pat (\<lambda>_. rep) s) (STREET_EQUIV U) addr_norm
      in py_strip U (re_sub (rx_spaces U) (\<lambda>_. [32]) s))"

definition normalize_address :: "unicode_db \<Rightarrow> ustr \<Rightarrow> ustr" where
  \<comment> \<open>the normalisation \<open>extract_components\<close> applies to an address\<close>
  "normalize_address U raw = normalize_street_part U (norm_text U raw)"

subsection \<open>Concrete tables\<close>

text \<open>
  \<open>py_tables\<close> agrees with CPython on strings made of Basic Latin characters, the
  letters U+0400 to U+045F of the Cyrillic block, the no-break space, the numero sign and
  the en dash; it is used only to evaluate the functions on such strings.
\<close>

definition lower_cp :: "cp \<Rightarrow> cp" where
  "lower_cp c =
     (if 65 \<le> c \<and> c \<le> 90 then c + 32
      else if 1040 \<le> c \<and> c \<le> 1071 then c + 32
      else if 1024 \<le> c \<and> c \<le> 1039 then c + 80
      else c)"

definition upper_cp :: "cp \<Rightarrow> cp" where
  "upper_cp c =
     (if 97 \<le> c \<and> c \<le> 122 then c - 32
      else if 1072 \<le> c \<and> c \<le> 1103 then c - 32
      else if 1104 \<le> c \<and> c \<le> 1119 then c - 80
      else c)"

definition nfkc_cp :: "cp \<Rightarrow> ustr" where
  "nfkc_cp c = (if c = 160 then [32] else if c = 8470 then [78, 111] else [c])"

definition space_cp :: "cp \<Rightarrow> bool" where
  "space_cp c = ((9 \<le> c \<and> c \<le> 13) \<or> (28 \<le> c \<and> c \<le> 32) \<or> c = 133 \<or> c = 160)"

definition digit_cp :: "cp \<Rightarrow> nat option" where
  "digit_cp c = (if 48 \<le> c \<and> c \<le> 57 then Some (nat (c - 48)) else None)"

definition alnum_cp :: "cp \<Rightarrow> bool" where
  "alnum_cp c = ((48 \<le> c \<and> c \<le> 57) \<or> (65 \<le> c \<and> c \<le> 90) \<or> (97 \<le> c \<and> c \<le> 122)
                 \<or> (1024 \<le> c \<and> c \<le> 1119))"

definition py_tables :: unicode_db where
  "py_tables =
     \<lparr>u_nfkc = (\<lambda>s. concat (map nfkc_cp s)),
      u_lower = map lower_cp,
      u_space = space_cp,
      u_digit = digit_cp,
      u_alnum = alnum_cp,
      u_ci_lit = (\<lambda>p c. lower_cp c = lower_cp p),
      u_ci_range = (\<lambda>lo hi c. (lo \<le> lower_cp c \<and> lower_cp c \<le> hi)
                              \<or> (lo \<le> upper_cp (lower_cp c) \<and> upper_cp (lower_cp c) \<le> hi))\<rparr>"

section \<open>Parsing an address (robot.py)\<close>

definition rx_corp_word :: "unicode_db \<Rightarrow> rx" where
  \<comment> \<open>\<open>(?:k|korpus|korp)\<close> under \<open>re.I\<close>\<close>
  "rx_corp_word U =
     Alt (lit_ci U [1082])
       (Alt (lit_ci U [1082, 1086, 1088, 1087, 1091, 1089]) (lit_ci U [1082, 1086, 1088, 1087]))"

definition rx_str_word :: "unicode_db \<Rightarrow> rx" where
  \<comment> \<open>\<open>(?:s|str|stroenie)\<close> under \<open>re.I\<close>\<close>
  "rx_str_word U =
     Alt (lit_ci U [1089])
       (Alt (lit_ci U [1089, 1090, 1088]) (lit_ci U [1089, 1090, 1088, 1086, 1077, 1085, 1080, 1077]))"

definition rx_part_num :: "unicode_db \<Rightarrow> rx" where
  \<comment> \<open>\<open>\d+[a-z\<close>U+0430\<open>-\<close>U+044F\<open>]?\<close> under \<open>re.I\<close>\<close>
  "rx_part_num U = Seq (Rep 1 None (is_digit U)) (Rep 0 (Some 1) (is_az_ci U))"

definition HOUSE_BLOCK_PAT :: "unicode_db \<Rightarrow> rx" where
  "HOUSE_BLOCK_PAT U =
     seqs
      [NotBehind (is_digit U),
       Grp 1 (Rep 1 (Some 4) (is_digit U)),
       Opt (seqs [Rep 0 None (is_space U), Chr (\<lambda>c. c = 45 \<or> c = 8211), Rep 0 None (is_space U),
                  Grp 2 (Rep 1 (Some 4) (is_digit U))]),
       Opt (Grp 3 (Seq (Chr (is_az_ci U)) (NotAhead (is_digit U)))),
       Opt (seqs [Rep 0 None (is_space U), rx_corp_word U, Rep 0 None (is_space U),
                  Rep 0 (Some 1) (\<lambda>c. c = 46), Rep 0 None (is_space U), Grp 4 (rx_part_num U)]),
       Opt (seqs [Rep 0 None (is_space U), rx_str_word U, Rep 0 None (is_space U),
                  Rep 0 (Some 1) (\<lambda>c. c = 46), Rep 0 None (is_space U), Grp 5 (rx_part_num U)])]"

definition STREET_DROP_TOKENS :: "ustr list" where
  "STREET_DROP_TOKENS =
     [[1076], [1076, 1086, 1084],                                           \<comment> \<open>d, dom\<close>
      [1087, 1086, 1084], [1087, 1086, 1084, 1077, 1097, 1077, 1085, 1080, 1077], \<comment> \<open>pom, pomeshchenie\<close>
      [1086, 1092], [1086, 1092, 1080, 1089],                               \<comment> \<open>of, ofis\<close>
      [1083, 1080, 1090], [1083, 1080, 1090, 1077, 1088, 1072],             \<comment> \<open>lit, litera\<close>
      [1082], [1082, 1086, 1088, 1087, 1091, 1089], [1082, 1086, 1088, 1087], \<comment> \<open>k, korpus, korp\<close>
      [1089, 1090, 1088], [1089, 1090, 1088, 1086, 1077, 1085, 1080, 1077]]" \<comment> \<open>str, stroenie\<close>

definition STREET_TYPE_TOKENS :: "ustr list" where
  \<comment> \<open>ul, pr, nab, per, sh\<close>
  "STREET_TYPE_TOKENS = [[1091, 1083], [1087, 1088], [1085, 1072, 1073], [1087, 1077, 1088], [1096]]"

record house_data =
  hd_house_from :: int
  hd_house_to :: int
  hd_house_letter :: ustr
  hd_corp :: "ustr option"
  hd_str :: "ustr option"
  hd_span :: "nat \<times> nat"

definition or_empty :: "ustr option \<Rightarrow> ustr" where
  \<comment> \<open>\<open>x or ""\<close>\<close>
  "or_empty x = (case x of None \<Rightarrow> [] | Some s \<Rightarrow> s)"

definition or_none :: "ustr \<Rightarrow> ustr option" where
  \<comment> \<open>\<open>s or None\<close>\<close>
  "or_none s = (if s = [] then None else Some s)"

definition group_int :: "unicode_db \<Rightarrow> rmatch \<Rightarrow> nat \<Rightarrow> error + int" where
  \<comment> \<open>\<open>int(hm.group(n))\<close>; \<open>int(None)\<close> is a TypeError\<close>
  "group_int U hm n = (case group hm n of None \<Rightarrow> Inl TypeError | Some g \<Rightarrow> py_int U g)"

definition parse_house_from_segment :: "unicode_db \<Rightarrow> ustr \<Rightarrow> bool \<Rightarrow> error + house_data option" where
  "parse_house_from_segment U segment prefer_first =
     (let matches = finditer (HOUSE_BLOCK_PAT U) segment in
      if matches = [] then Inr None
      else
        let hm = (if prefer_first then hd matches else last matches) in
        case group_int U hm 1 of Inl e \<Rightarrow> Inl e
        | Inr h_from \<Rightarrow>
            (case (if or_empty (group hm 2) \<noteq> [] then group_int U hm 2 else Inr h_from) of
               Inl e \<Rightarrow> Inl e
             | Inr h_to \<Rightarrow>
                 Inr (Some \<lparr>hd_house_from = h_from, hd_house_to = h_to,
                            hd_house_letter = py_strip U (or_empty (group hm 3)),
                            hd_corp = or_none (py_strip U (or_empty (group hm 4))),
                            hd_str = or_none (py_strip U (or_empty (group hm 5))),
                            hd_span = (r_start hm, r_end hm)\<rparr>)))"

definition remove_house_from_segment :: "unicode_db \<Rightarrow> ustr \<Rightarrow> nat \<times> nat \<Rightarrow> ustr" where
  \<comment> \<open>called with the span of a match only, which is a pair and so never falsy\<close>
  "remove_house_from_segment U segment spn =
     (let left = py_strip U (take (fst spn) segment);
          right = py_strip U (drop (snd spn) segment)
      in if left \<noteq> [] \<and> right \<noteq> [] then py_strip U (left @ [32] @ right)
         else py_strip U (if left \<noteq> [] then left else right))"

definition rx_descr_word :: "unicode_db \<Rightarrow> rx" where
  \<comment> \<open>\<open>\b(d|dom|k|korp|korpus|s|str|stroenie|pom|pomeshchenie|of|ofis|lit|litera)\b\<close>\<close>
  "rx_descr_word U =
     seqs [WordB (is_word U),
           Grp 1 (foldr Alt (map lit
             [[1076], [1076, 1086, 1084], [1082], [1082, 1086, 1088, 1087],
              [1082, 1086, 1088, 1087, 1091, 1089], [1089], [1089, 1090, 1088],
              [1089, 1090, 1088, 1086, 1077, 1085, 1080, 1077], [1087, 1086, 1084],
              [1087, 1086, 1084, 1077, 1097, 1077, 1085, 1080, 1077], [1086, 1092],
              [1086, 1092, 1080, 1089], [1083, 1080, 1090]])
             (lit [1083, 1080, 1090, 1077, 1088, 1072])),
           WordB (is_word U)]"

definition rx_num_letter :: "unicode_db \<Rightarrow> rx" where
  \<comment> \<open>\<open>\d+[a-z\<close>U+0430\<open>-\<close>U+044F\<open>]?\<close> without flags\<close>
  "rx_num_letter U = Seq (Rep 1 None (is_digit U)) (Rep 0 (Some 1) is_az)"

definition rx_not_alnum_ci :: "unicode_db \<Rightarrow> rx" where
  \<comment> \<open>\<open>[^a-z\<close>U+0430\<open>-\<close>U+044F\<open>0-9]+\<close> under \<open>re.I\<close>\<close>
  "rx_not_alnum_ci U = Rep 1 None (\<lambda>c. \<not> (is_az_ci U c \<or> (48 \<le> c \<and> c \<le> 57)))"

definition has_real_street_words :: "unicode_db \<Rightarrow> ustr \<Rightarrow> bool" where
  "has_real_street_words U text =
     (if text = [] then False
      else
        let tmp = re_sub (rx_descr_word U) (\<lambda>_. [32]) text;
            tmp = re_sub (rx_num_letter U) (\<lambda>_. [32]) tmp;
            tmp = re_sub (rx_not_alnum_ci U) (\<lambda>_. [32]) tmp;
            tmp = py_strip U (re_sub (rx_spaces U) (\<lambda>_. [32]) tmp)
        in if tmp = [] then False
           else
             let tokens = filter (\<lambda>t. \<not> re_fullmatch (Chr is_az) t) (py_split U tmp);
                 tmp2 = py_strip U (py_join [32] tokens)
             in if tmp2 = [] then False else re_search (Chr is_az) tmp2)"

definition rx_tech_token :: "unicode_db \<Rightarrow> rx" where
  \<comment> \<open>\<open>(?:k|str)\d+[a-z\<close>U+0430\<open>-\<close>U+044F\<open>]?\<close> without flags\<close>
  "rx_tech_token U =
     seqs [Alt (lit [1082]) (lit [1089, 1090, 1088]), Rep 1 None (is_digit U), Rep 0 (Some 1) is_az]"

definition make_street_keys :: "unicode_db \<Rightarrow> ustr \<Rightarrow> ustr \<times> ustr" where
  "make_street_keys U street_zone =
     (let src = normalize_street_part U street_zone;
          src = py_strip U (re_sub (rx_spaces U) (\<lambda>_. [32]) src);
          tokens = filter (\<lambda>t. t \<notin> set STREET_TYPE_TOKENS \<and> t \<notin> set STREET_DROP_TOKENS
                                \<and> \<not> re_fullmatch (rx_tech_token U) t) (py_split U src)
      in (py_strip U (py_join [32] tokens), py_strip U (py_join [32] (sort tokens))))"

record components =
  raw :: ustr
  normalized :: ustr   \<comment> \<open>the key \<open>"norm"\<close>\<close>
  street_key :: ustr
  street_key_bag :: ustr
  house_from :: "int option"
  house_to :: "int option"
  house_letter :: ustr
  corp :: "ustr option"
  str :: "ustr option"

definition rx_compact :: "unicode_db \<Rightarrow> cp \<Rightarrow> rx" where
  \<comment> \<open>\<open>(\d)\s*x\s*(\d)\<close> under \<open>re.I\<close>, for the letter \<open>x\<close>\<close>
  "rx_compact U x =
     seqs [Grp 1 (Chr (is_digit U)), Rep 0 None (is_space U), Chr (u_ci_lit U x),
           Rep 0 None (is_space U), Grp 2 (Chr (is_digit U))]"

definition split_compact :: "unicode_db \<Rightarrow> cp \<Rightarrow> ustr \<Rightarrow> ustr" where
  \<comment> \<open>\<open>re.sub(r"(\d)\s*x\s*(\d)", r"\1 x\2", a, flags=re.I)\<close>\<close>
  "split_compact U x a =
     re_sub (rx_compact U x) (\<lambda>m. or_empty (group m 1) @ [32, x] @ or_empty (group m 2)) a"

definition build_components :: "unicode_db \<Rightarrow> ustr \<Rightarrow> ustr \<Rightarrow> house_data option \<Rightarrow> ustr \<Rightarrow> components" where
  \<comment> \<open>the tail of \<open>extract_components\<close>, from \<open>if not house_data\<close> on\<close>
  "build_components U raw0 a house street_zone =
     (let (key, bag) = make_street_keys U street_zone in
      case house of
        None \<Rightarrow>
          \<lparr>raw = raw0, normalized = a, street_key = key, street_key_bag = bag,
           house_from = None, house_to = None, house_letter = [], corp = None, str = None\<rparr>
      | Some h \<Rightarrow>
          \<lparr>raw = raw0, normalized = a, street_key = key, street_key_bag = bag,
           house_from = Some (hd_house_from h), house_to = Some (hd_house_to h),
           house_letter = hd_house_letter h, corp = hd_corp h, str = hd_str h\<rparr>)"

definition extract_components :: "unicode_db \<Rightarrow> ustr option \<Rightarrow> error + components option" where
  "extract_components U address =
     (case address of None \<Rightarrow> Inr None
      | Some raw0 \<Rightarrow>
        if raw0 = [] then Inr None
        else
          let a = normalize_street_part U (norm_text U raw0);
              a = split_compact U 1082 a;
              a = split_compact U 1089 a;
              parts = filter (\<lambda>p. p \<noteq> []) (map (py_strip U) (split_on 44 a))
          in
          if 2 \<le> length parts then
            (let lst = last parts in
             case parse_house_from_segment U lst True of Inl e \<Rightarrow> Inl e
             | Inr (Some h) \<Rightarrow>
                 (let stripped_last = remove_house_from_segment U lst (hd_span h) in
                  Inr (Some (build_components U raw0 a (Some h)
                    (if has_real_street_words U stripped_last then stripped_last
                     else parts ! (length parts - 2)))))
             | Inr None \<Rightarrow>
                 (case parse_house_from_segment U a False of Inl e \<Rightarrow> Inl e
                  | Inr (Some h) \<Rightarrow>
                      Inr (Some (build_components U raw0 a (Some h)
                             (remove_house_from_segment U a (hd_span h))))
                  | Inr None \<Rightarrow> Inr (Some (build_components U raw0 a None a))))
          else
            (case parse_house_from_segment U a False of Inl e \<Rightarrow> Inl e
             | Inr (Some h) \<Rightarrow>
                 Inr (Some (build_components U raw0 a (Some h)
                        (remove_house_from_segment U a (hd_span h))))
             | Inr None \<Rightarrow> Inr (Some (build_components U raw0 a None a))))"

section \<open>House and part comparison (robot.py)\<close>




datatype relation = Ok | Mismatch | Unknown


section \<open>Matching a competitor listing against the catalogue (robot.py)\<close>

text \<open>
  A listing, of the catalogue or of a competitor, is a dictionary; a key that is missing
  or holds \<open>None\<close> is \<open>None\<close> here.  \<open>comp\<close> is the key \<open>"_comp"\<close> that
  \<open>build_my_index\<close> attaches.  A Python number (\<open>int\<close> or \<open>float\<close>) is a rational:
  the rounding of float arithmetic is not modelled.
\<close>

record row =
  deal_type :: "ustr option"
  status :: "ustr option"
  address :: "ustr option"
  area_m2 :: "rat option"
  price_rub :: "rat option"
  crm_url :: "ustr option"
  comp :: "components option"



























section \<open>Clustering listings of several sources (build\_union\_board.py)\<close>

text \<open>
  Of the dataclass \<open>Listing\<close> the record keeps the fields that the clustering reads.
  The dictionary \<open>listings\<close> of a \<open>UnionObject\<close> (source to listing) is an association
  list in insertion order.
\<close>

record listing =
  competitor :: ustr
  l_area_m2 :: "rat option"
  position_global :: "rat option"
  district_norm :: ustr
  address_key :: ustr

record union_object =
  o_address_key :: ustr
  area_ref :: "rat option"
  listings :: "(ustr \<times> listing) list"
  area_values :: "rat list"

definition UNION_AREA_TOL :: rat where
  \<comment> \<open>\<open>AREA_TOL\<close> of build\_union\_board.py\<close>
  "UNION_AREA_TOL = 3"

definition pos_or_last :: "rat option \<Rightarrow> rat" where
  \<comment> \<open>\<open>p if p is not None else 10**12\<close>\<close>
  "pos_or_last p = (case p of None \<Rightarrow> 10 ^ 12 | Some x \<Rightarrow> x)"

definition add_listing :: "union_object \<Rightarrow> listing \<Rightarrow> union_object" where
  "add_listing obj lst =
     (let obj1 =
            (case map_of (listings obj) (competitor lst) of
               None \<Rightarrow> obj\<lparr>listings := AList.update (competitor lst) lst (listings obj)\<rparr>
             | Some cur \<Rightarrow>
                 if pos_or_last (position_global lst) < pos_or_last (position_global cur)
                 then obj\<lparr>listings := AList.update (competitor lst) lst (listings obj)\<rparr>
                 else obj)
      in case l_area_m2 lst of
           None \<Rightarrow> obj1
         | Some a \<Rightarrow> obj1\<lparr>area_values := area_values obj1 @ [a], area_ref := Some a\<rparr>)"

definition UNKNOWN_PREFIX :: ustr where
  \<comment> \<open>"ne opredel"\<close>
  "UNKNOWN_PREFIX = [1085, 1077, 32, 1086, 1087, 1088, 1077, 1076, 1077, 1083]"

definition is_unknown_district :: "unicode_db \<Rightarrow> ustr \<Rightarrow> bool" where
  "is_unknown_district U norm_value =
     (let s = u_lower U (py_strip U norm_value)
      in s = [] \<or> take (length UNKNOWN_PREFIX) s = UNKNOWN_PREFIX)"

definition known_districts :: "unicode_db \<Rightarrow> union_object \<Rightarrow> ustr list" where
  "known_districts U obj =
     filter (\<lambda>d. \<not> is_unknown_district U d) (map (\<lambda>kv. district_norm (snd kv)) (listings obj))"

definition district_compatible :: "unicode_db \<Rightarrow> listing \<Rightarrow> union_object \<Rightarrow> bool" where
  "district_compatible U lst obj =
     (if is_unknown_district U (district_norm lst) then True
      else if known_districts U obj = [] then True
      else district_norm lst \<in> set (known_districts U obj))"

fun best_match ::
  "unicode_db \<Rightarrow> listing \<Rightarrow> (nat \<times> union_object) list \<Rightarrow> nat option \<Rightarrow> rat \<Rightarrow> nat option" where
  \<comment> \<open>the first loop of \<open>find_matching_object\<close>, over the pool with its indices\<close>
  "best_match U lst [] best best_diff = best"
| "best_match U lst ((i, obj) # rest) best best_diff =
     (if \<not> district_compatible U lst obj then best_match U lst rest best best_diff
      else
        case (l_area_m2 lst, area_ref obj) of
          (Some a, Some r) \<Rightarrow>
            (let d = \<bar>a - r\<bar> in
             if d \<le> UNION_AREA_TOL \<and> d < best_diff then best_match U lst rest (Some i) d
             else best_match U lst rest best best_diff)
        | _ \<Rightarrow> best_match U lst rest best best_diff)"

definition find_matching_object :: "unicode_db \<Rightarrow> union_object list \<Rightarrow> listing \<Rightarrow> nat option" where
  \<comment> \<open>the result is the position in \<open>pool\<close> of the object returned, \<open>None\<close> for \<open>None\<close>\<close>
  "find_matching_object U pool lst =
     (if pool = [] then None
      else
        case best_match U lst (zip [0..<length pool] pool) None (10 ^ 9) of
          Some i \<Rightarrow> Some i
        | None \<Rightarrow>
            if length pool = 1 \<and> district_compatible U lst (pool ! 0)
               \<and> l_area_m2 lst \<noteq> None \<and> area_ref (pool ! 0) \<noteq> None
               \<and> \<bar>the (l_area_m2 lst) - the (area_ref (pool ! 0))\<bar> \<le> 15
            then Some 0
            else if l_area_m2 lst = None \<and> length pool = 1 \<and> district_compatible U lst (pool ! 0)
            then Some 0
            else None)"

definition new_object :: "ustr \<Rightarrow> listing \<Rightarrow> union_object" where
  \<comment> \<open>\<open>UnionObject(address_key=key, area_ref=\<dots>)\<close>\<close>
  "new_object key lst =
     \<lparr>o_address_key = key, area_ref = l_area_m2 lst, listings = [], area_values = []\<rparr>"

definition place_listing :: "unicode_db \<Rightarrow> union_object list \<Rightarrow> listing \<Rightarrow> union_object list" where
  \<comment> \<open>the body of the loop of \<open>build_union_objects\<close> on the pool of the listing's key\<close>
  "place_listing U pool lst =
     (case find_matching_object U pool lst of
        None \<Rightarrow> pool @ [add_listing (new_object (address_key lst) lst) lst]
      | Some i \<Rightarrow> pool[i := add_listing (pool ! i) lst])"

definition groups_get :: "(ustr \<times> union_object list) list \<Rightarrow> ustr \<Rightarrow> union_object list" where
  "groups_get groups key = (case map_of groups key of None \<Rightarrow> [] | Some pool \<Rightarrow> pool)"

fun build_union_groups ::
  "unicode_db \<Rightarrow> (ustr \<times> union_object list) list \<Rightarrow> listing list \<Rightarrow> (ustr \<times> union_object list) list" where
  "build_union_groups U groups [] = groups"
| "build_union_groups U groups (lst # rest) =
     build_union_groups U
       (AList.update (address_key lst) (place_listing U (groups_get groups (address_key lst)) lst) groups)
       rest"

definition build_union_objects :: "unicode_db \<Rightarrow> listing list \<Rightarrow> union_object list" where
  "build_union_objects U lsts = concat (map snd (build_union_groups U [] lsts))"

subsection \<open>Example data\<close>

definition ex_listing :: "ustr \<Rightarrow> rat option \<Rightarrow> ustr \<Rightarrow> listing" where
  \<comment> \<open>a listing of the source \<open>src\<close> at the address key "k", first in its crawl\<close>
  "ex_listing src area district =
     \<lparr>competitor = src, l_area_m2 = area, position_global = Some 1,
      district_norm = district, address_key = [107]\<rparr>"

definition ex_cluster :: "rat option \<Rightarrow> ustr \<Rightarrow> union_object" where
  \<comment> \<open>the cluster made of one listing of the source "a"\<close>
  "ex_cluster area district =
     add_listing (new_object [107] (ex_listing [97] area district)) (ex_listing [97] area district)"

section \<open>Invariants of the matcher\<close>

text \<open>The groups a pattern can capture, and a predicate on patterns saying that whatever a
  group captures satisfies \<open>Q\<close>; both are used to show that the numbers read from a match are
  well formed.\<close>

fun grps :: "rx \<Rightarrow> nat set" where
  "grps (Grp n a) = insert n (grps a)"
| "grps (Seq a b) = grps a \<union> grps b"
| "grps (Alt a b) = grps a \<union> grps b"
| "grps (Opt a) = grps a"
| "grps _ = {}"

fun rx_ok :: "(nat \<Rightarrow> ustr \<Rightarrow> bool) \<Rightarrow> rx \<Rightarrow> bool" where
  "rx_ok Q (Grp n a) =
     (rx_ok Q a \<and> (\<forall>s e. e \<in> set (rx_match a s) \<longrightarrow> Q n (take (m_pos e - m_pos s) (m_rest s))))"
| "rx_ok Q (Seq a b) = (rx_ok Q a \<and> rx_ok Q b)"
| "rx_ok Q (Alt a b) = (rx_ok Q a \<and> rx_ok Q b)"
| "rx_ok Q (Opt a) = rx_ok Q a"
| "rx_ok Q _ = True"



section \<open>The reference price as the specification words it\<close>



subsection \<open>Example data for matching\<close>




section \<open>Properties\<close>

subsection \<open>Clustering\<close>

lemma best_match_single:
  "best_match U lst [(0, obj)] None d = None \<or> best_match U lst [(0, obj)] None d = Some 0"
  by (simp add: Let_def split: option.splits)

lemma add_listing_address_key: "o_address_key (add_listing obj lst) = o_address_key obj"
  by (simp add: add_listing_def Let_def split: option.splits)

lemma add_listing_area:
  assumes "l_area_m2 lst = Some a"
  shows "area_ref (add_listing obj lst) = Some a"
    and "area_values (add_listing obj lst) = area_values obj @ [a]"
  using assms by (simp_all add: add_listing_def Let_def split: option.splits)

lemma add_listing_map:
  "map_of (listings (add_listing obj lst)) =
     (map_of (listings obj))(competitor lst \<mapsto>
        (case map_of (listings obj) (competitor lst) of
           None \<Rightarrow> lst
         | Some cur \<Rightarrow>
             if pos_or_last (position_global lst) < pos_or_last (position_global cur)
             then lst else cur))"
  by (auto simp: add_listing_def Let_def update_conv' map_upd_triv split: option.splits)

lemma add_listing_keys:
  "map fst (listings (add_listing obj lst)) =
     (if map_of (listings obj) (competitor lst) = None
      then map fst (listings obj) @ [competitor lst] else map fst (listings obj))"
proof (cases "map_of (listings obj) (competitor lst)")
  case None
  then have "competitor lst \<notin> fst ` set (listings obj)" by (simp add: map_of_eq_None_iff)
  with None show ?thesis
    by (simp add: add_listing_def Let_def update_keys split: option.splits)
next
  case (Some cur)
  then have "competitor lst \<in> fst ` set (listings obj)"
    by (metis map_of_eq_None_iff option.distinct(1))
  with Some show ?thesis
    by (simp add: add_listing_def Let_def update_keys split: option.splits)
qed

text \<open>
  Claim C10.  When the pool of an address key holds exactly one cluster, that cluster is
  district-compatible with the listing, and both the listing's area and the cluster's
  \<open>area_ref\<close> are numbers that differ by at most 15, \<open>find_matching_object\<close> returns that
  cluster, whether or not the difference is within the tolerance of 3, and the loop of
  \<open>build_union_objects\<close> attaches the listing to it instead of creating a cluster: the pool
  keeps its single cluster, under the same address key; the listing's area becomes the
  cluster's \<open>area_ref\<close> and is appended to its \<open>area_values\<close>; the listing is stored under
  its source, at the end of the dictionary when the source is new to the cluster, and in
  place of the source's earlier listing only when its position is strictly better; the
  listings of the other sources stay as they were.
\<close>

theorem soft_match_single_cluster:
  assumes "district_compatible U lst obj"
    and "l_area_m2 lst = Some a" and "area_ref obj = Some r" and "\<bar>a - r\<bar> \<le> 15"
  shows "find_matching_object U [obj] lst = Some 0
         \<and> place_listing U [obj] lst = [add_listing obj lst]
         \<and> o_address_key (add_listing obj lst) = o_address_key obj
         \<and> area_ref (add_listing obj lst) = Some a
         \<and> area_values (add_listing obj lst) = area_values obj @ [a]
         \<and> map_of (listings (add_listing obj lst)) =
             (map_of (listings obj))(competitor lst \<mapsto>
                (case map_of (listings obj) (competitor lst) of
                   None \<Rightarrow> lst
                 | Some cur \<Rightarrow>
                     if pos_or_last (position_global lst) < pos_or_last (position_global cur)
                     then lst else cur))
         \<and> map fst (listings (add_listing obj lst)) =
             (if map_of (listings obj) (competitor lst) = None
              then map fst (listings obj) @ [competitor lst] else map fst (listings obj))"
proof -
  have f: "find_matching_object U [obj] lst = Some 0"
    using assms best_match_single [of U lst obj "10 ^ 9"]
    by (auto simp: find_matching_object_def split: option.splits)
  then have p: "place_listing U [obj] lst = [add_listing obj lst]"
    by (simp add: place_listing_def)
  show ?thesis
    using f p add_listing_address_key [of obj lst] add_listing_area [OF assms(2), of obj]
      add_listing_map [of obj lst] add_listing_keys [of obj lst]
    by (intro conjI)
qed

theorem soft_match_single_cluster_witness:
  "district_compatible py_tables (ex_listing [98] (Some 110) []) (ex_cluster (Some 100) [])
   \<and> l_area_m2 (ex_listing [98] (Some 110) []) = Some 110
   \<and> area_ref (ex_cluster (Some 100) []) = Some 100
   \<and> \<bar>110 - 100 :: rat\<bar> \<le> 15 \<and> \<not> \<bar>110 - 100 :: rat\<bar> \<le> UNION_AREA_TOL
   \<and> find_matching_object py_tables [ex_cluster (Some 100) []] (ex_listing [98] (Some 110) []) = Some 0
   \<and> place_listing py_tables [ex_cluster (Some 100) []] (ex_listing [98] (Some 110) [])
       = [add_listing (ex_cluster (Some 100) []) (ex_listing [98] (Some 110) [])]
   \<and> area_ref (add_listing (ex_cluster (Some 100) []) (ex_listing [98] (Some 110) [])) = Some 110
   \<and> area_values (add_listing (ex_cluster (Some 100) []) (ex_listing [98] (Some 110) []))
       = area_values (ex_cluster (Some 100) []) @ [110]
   \<and> ex_cluster (Some 100) []
       = \<lparr>o_address_key = [107], area_ref = Some 100,
          listings = [([97], ex_listing [97] (Some 100) [])], area_values = [100]\<rparr>
   \<and> add_listing (ex_cluster (Some 100) []) (ex_listing [98] (Some 110) [])
       = \<lparr>o_address_key = [107], area_ref = Some 110,
          listings = [([97], ex_listing [97] (Some 100) []), ([98], ex_listing [98] (Some 110) [])],
          area_values = [100, 110]\<rparr>"
proof -
  have h1: "district_compatible py_tables (ex_listing [98] (Some 110) []) (ex_cluster (Some 100) [])"
    by code_simp
  have h2: "l_area_m2 (ex_listing [98] (Some 110) []) = Some 110"
    by (simp add: ex_listing_def)
  have h3: "area_ref (ex_cluster (Some 100) []) = Some 100"
    by (simp add: ex_cluster_def add_listing_def new_object_def ex_listing_def)
  have h4: "\<bar>110 - 100 :: rat\<bar> \<le> 15" by simp
  have h5: "\<not> \<bar>110 - 100 :: rat\<bar> \<le> UNION_AREA_TOL" by (simp add: UNION_AREA_TOL_def)
  have c1: "ex_cluster (Some 100) []
       = \<lparr>o_address_key = [107], area_ref = Some 100,
          listings = [([97], ex_listing [97] (Some 100) [])], area_values = [100]\<rparr>"
    by (simp add: ex_cluster_def add_listing_def new_object_def ex_listing_def)
  have c2: "add_listing (ex_cluster (Some 100) []) (ex_listing [98] (Some 110) [])
       = \<lparr>o_address_key = [107], area_ref = Some 110,
          listings = [([97], ex_listing [97] (Some 100) []), ([98], ex_listing [98] (Some 110) [])],
          area_values = [100, 110]\<rparr>"
    unfolding c1 by (simp add: add_listing_def ex_listing_def)
  note t = soft_match_single_cluster [OF h1 h2 h3 h4]
  from t have t1: "find_matching_object py_tables [ex_cluster (Some 100) []]
      (ex_listing [98] (Some 110) []) = Some 0" by (rule conjunct1)
  from t have t2: "place_listing py_tables [ex_cluster (Some 100) []] (ex_listing [98] (Some 110) [])
       = [add_listing (ex_cluster (Some 100) []) (ex_listing [98] (Some 110) [])]" by blast
  from t have t3: "area_ref (add_listing (ex_cluster (Some 100) []) (ex_listing [98] (Some 110) []))
       = Some 110" by blast
  from t have t4: "area_values (add_listing (ex_cluster (Some 100) []) (ex_listing [98] (Some 110) []))
       = area_values (ex_cluster (Some 100) []) @ [110]" by blast
  show ?thesis
    using h1 h2 h3 h4 h5 t1 t2 t3 t4 c1 c2 by (intro conjI)
qed

subsection \<open>What a match captures\<close>








lemma advance_caps [simp]: "m_caps (advance s j) = m_caps s"
  by (simp add: advance_def)







subsection \<open>The parser raises no exception\<close>

lemma rx_ok_lit_ci [simp]: "rx_ok Q (lit_ci U w)"
  unfolding lit_ci_def by (induction w) simp_all

lemma grps_lit_ci [simp]: "grps (lit_ci U w) = {}"
  unfolding lit_ci_def by (induction w) simp_all










subsection \<open>House numbers of parsed components\<close>





subsection \<open>Compact and verbose house notation\<close>

text \<open>
  Claim C6.  \<open>extract_components\<close> parses the compact notation "70k1s1" (with the Cyrillic
  letters ka and es) and the verbose notation "70 korpus 1 str 1" to the same house
  components: \<open>house_from = 70\<close>, \<open>house_to = 70\<close>, \<open>corp = "1"\<close>, \<open>str = "1"\<close> and the same,
  empty, \<open>house_letter\<close>.  The two results differ in \<open>raw\<close> and \<open>norm\<close> only.
\<close>

theorem compact_and_verbose_house:
  "extract_components py_tables (Some [55, 48, 1082, 49, 1089, 49])
     = Inr (Some \<lparr>raw = [55, 48, 1082, 49, 1089, 49],
                   normalized = [55, 48, 32, 1082, 49, 32, 1089, 49],
                   street_key = [], street_key_bag = [],
                   house_from = Some 70, house_to = Some 70, house_letter = [],
                   corp = Some [49], str = Some [49]\<rparr>)
   \<and> extract_components py_tables
        (Some [55, 48, 32, 1082, 1086, 1088, 1087, 1091, 1089, 32, 49, 32, 1089, 1090, 1088, 32, 49])
     = Inr (Some \<lparr>raw = [55, 48, 32, 1082, 1086, 1088, 1087, 1091, 1089, 32, 49, 32, 1089, 1090,
                          1088, 32, 49],
                   normalized = [55, 48, 32, 1082, 49, 32, 1089, 1090, 1088, 32, 49],
                   street_key = [], street_key_bag = [],
                   house_from = Some 70, house_to = Some 70, house_letter = [],
                   corp = Some [49], str = Some [49]\<rparr>)"
  by code_simp

subsection \<open>The house numbers of an address\<close>




subsection \<open>Overlap of house ranges\<close>




subsection \<open>The reference price\<close>





subsection \<open>The house letter\<close>















lemma if_map_Nil: "(if b then map h xs else []) = map h (if b then xs else [])"
  by simp




subsection \<open>The comparison raises no exception\<close>












end
